theory Spec2Isabelle
  imports Complex_Main "HOL-Library.Sublist"
begin

section \<open>Python values used by the pipeline\<close>

text \<open>
  Exceptions are values. Every \<^verbatim>\<open>try/except Exception\<close> of the source is a case
  distinction on a result of type \<open>error + 'a\<close>, with \<open>Inl\<close> the raised exception.
  Calls to the language model, the embedding model and the Chroma collection are not code
  of this repository: the outcome of a call, its value or the exception it raised, is an
  argument of the function that makes the call, or the service is a function it takes.
\<close>

datatype error =
    ValueError
  | IndexError
  | KeyError
  | ValidationError
  | ServiceError string

text \<open>
  Python strings are modelled as \<open>string\<close>: sequences of code points below 256.
  Embedding components, distances and scores are Python floats, modelled as reals.
\<close>

definition bind_err :: "error + 'a \<Rightarrow> ('a \<Rightarrow> error + 'b) \<Rightarrow> error + 'b" where
  "bind_err r f = (case r of Inl e \<Rightarrow> Inl e | Inr x \<Rightarrow> f x)"

text \<open>\<^verbatim>\<open>xs[i]\<close> for a non-negative literal index: IndexError out of range.\<close>

definition py_index :: "'a list \<Rightarrow> nat \<Rightarrow> error + 'a" where
  "py_index xs i = (if i < length xs then Inr (xs ! i) else Inl IndexError)"

subsection \<open>str.find, the in operator, str.split\<close>

text \<open>\<^verbatim>\<open>s.find(sub)\<close>: the index of the leftmost occurrence of \<open>sub\<close> in \<open>s\<close>.\<close>

fun py_find :: "'a list \<Rightarrow> 'a list \<Rightarrow> nat option" where
  "py_find sub [] = (if sub = [] then Some 0 else None)"
| "py_find sub (c # cs) =
     (if prefix sub (c # cs) then Some 0 else map_option Suc (py_find sub cs))"

text \<open>\<^verbatim>\<open>sub in s\<close> on strings.\<close>

definition py_in :: "'a list \<Rightarrow> 'a list \<Rightarrow> bool" where
  "py_in sub s = (py_find sub s \<noteq> None)"

lemma py_find_bound: "py_find sub s = Some i \<Longrightarrow> i + length sub \<le> length s"
proof (induction s arbitrary: i)
  case Nil
  then show ?case by (simp split: if_splits)
next
  case (Cons c cs)
  show ?case
  proof (cases "prefix sub (c # cs)")
    case True
    with Cons.prems have "i = 0" by simp
    with prefix_length_le [OF True] show ?thesis by simp
  next
    case False
    with Cons.prems obtain j where "py_find sub cs = Some j" "i = Suc j" by auto
    with Cons.IH show ?thesis by fastforce
  qed
qed

text \<open>
  \<^verbatim>\<open>s.split(sep)\<close> for a non-empty separator: cut at the leftmost occurrence, then go
  on in the rest. The pieces are never an empty list.
\<close>

function split_pieces :: "'a list \<Rightarrow> 'a list \<Rightarrow> 'a list list" where
  "split_pieces sep s =
     (if sep = [] then [s]
      else (case py_find sep s of
              None \<Rightarrow> [s]
            | Some i \<Rightarrow> take i s # split_pieces sep (drop (i + length sep) s)))"
  by pat_completeness auto
termination
proof (relation "measure (\<lambda>(sep, s). length s)")
  show "wf (measure (\<lambda>(sep, s). length s))" by simp
next
  fix sep s :: "'a list" and i :: nat
  assume "sep \<noteq> []" and "py_find sep s = Some i"
  then have "i + length sep \<le> length s" and "sep \<noteq> []"
    using py_find_bound by auto
  then show "((sep, drop (i + length sep) s), (sep, s)) \<in> measure (\<lambda>(sep, s). length s)"
    by (cases sep) auto
qed

declare split_pieces.simps [simp del]

text \<open>\<^verbatim>\<open>s.split(sep)\<close>: an empty separator raises ValueError.\<close>

definition py_split :: "'a list \<Rightarrow> 'a list \<Rightarrow> error + 'a list list" where
  "py_split sep s = (if sep = [] then Inl ValueError else Inr (split_pieces sep s))"

subsection \<open>str.strip, str.lower\<close>

text \<open>\<^verbatim>\<open>str.isspace\<close> on one code point below 256.\<close>

definition isspace :: "char \<Rightarrow> bool" where
  "isspace c =
     (let n = (of_char c :: nat)
      in (9 \<le> n \<and> n \<le> 13) \<or> (28 \<le> n \<and> n \<le> 32) \<or> n = 133 \<or> n = 160)"

definition py_strip :: "string \<Rightarrow> string" where
  "py_strip s = rev (dropWhile isspace (rev (dropWhile isspace s)))"

text \<open>\<^verbatim>\<open>str.lower\<close> on one code point below 256.\<close>

definition lower_char :: "char \<Rightarrow> char" where
  "lower_char c =
     (let n = (of_char c :: nat)
      in if (65 \<le> n \<and> n \<le> 90) \<or> (192 \<le> n \<and> n \<le> 214) \<or> (216 \<le> n \<and> n \<le> 222)
         then char_of (n + 32) else c)"

definition py_lower :: "string \<Rightarrow> string" where
  "py_lower s = map lower_char s"

text \<open>
  The list comprehension of both parsers:
  \<^verbatim>\<open>[p.strip() for p in section.strip().split(",") if p.strip()]\<close>.
\<close>

definition comma_items :: "string \<Rightarrow> error + string list" where
  "comma_items section' =
     bind_err (py_split '','' (py_strip section'))
       (\<lambda>ps. Inr (map py_strip (filter (\<lambda>p. py_strip p \<noteq> []) ps)))"

section \<open>models.py\<close>

datatype DocumentType = LEGAL_LETTER | CONTRACT | NOTICE | COMPLAINT | RESPONSE

text \<open>The string value of each member of the enum, and the member of a value.\<close>

fun DocumentType_value :: "DocumentType \<Rightarrow> string" where
  "DocumentType_value LEGAL_LETTER = ''legal_letter''"
| "DocumentType_value CONTRACT = ''contract''"
| "DocumentType_value NOTICE = ''notice''"
| "DocumentType_value COMPLAINT = ''complaint''"
| "DocumentType_value RESPONSE = ''response''"

definition DocumentType_of_value :: "string \<Rightarrow> DocumentType option" where
  "DocumentType_of_value v =
     find (\<lambda>t. DocumentType_value t = v) [LEGAL_LETTER, CONTRACT, NOTICE, COMPLAINT, RESPONSE]"

text \<open>
  A Python float that is not NaN: a finite value or an infinity. How a NaN compares with
  the bounds of a field is decided inside pydantic, so NaN is left out of the model.
\<close>

datatype pyfloat = Finite real | PosInf | NegInf

text \<open>
  A \<^verbatim>\<open>Dict[str, Any]\<close> is an association list read with \<open>map_of\<close>; the values that
  occur are strings, integers and lists of strings.
\<close>

datatype meta_value = MStr string | MInt int | MList "string list"

type_synonym metadata = "(string \<times> meta_value) list"

text \<open>\<^verbatim>\<open>d[k]\<close> raises KeyError on a missing key; \<^verbatim>\<open>d.get(k, default)\<close> does not.\<close>

definition dict_item :: "metadata \<Rightarrow> string \<Rightarrow> error + meta_value" where
  "dict_item d k = (case map_of d k of None \<Rightarrow> Inl KeyError | Some v \<Rightarrow> Inr v)"

definition dict_get :: "metadata \<Rightarrow> string \<Rightarrow> meta_value \<Rightarrow> meta_value" where
  "dict_get d k dflt = (case map_of d k of None \<Rightarrow> dflt | Some v \<Rightarrow> v)"

text \<open>The validation of a field of a pydantic model, by the field's type.\<close>

fun validate_str :: "meta_value \<Rightarrow> error + string" where
  "validate_str (MStr s) = Inr s"
| "validate_str v = Inl ValidationError"

fun validate_str_list :: "meta_value \<Rightarrow> error + string list" where
  "validate_str_list (MList xs) = Inr xs"
| "validate_str_list v = Inl ValidationError"

fun validate_DocumentType :: "meta_value \<Rightarrow> error + DocumentType" where
  "validate_DocumentType (MStr s) =
     (case DocumentType_of_value s of None \<Rightarrow> Inl ValidationError | Some t \<Rightarrow> Inr t)"
| "validate_DocumentType v = Inl ValidationError"

record LegalDocument =
  ld_id :: string
  ld_filename :: string
  ld_content :: string
  ld_document_type :: DocumentType
  ld_metadata :: metadata
  ld_created_at :: nat
  ld_parties_involved :: "string list"
  ld_key_issues :: "string list"

record LegalResponse =
  lr_document_id :: string
  lr_response_type :: string
  lr_suggested_response :: string
  lr_confidence_score :: pyfloat
  lr_reasoning :: string
  lr_key_points :: "string list"
  lr_tone :: string
  lr_created_at :: nat

record DocumentChunk =
  dc_id :: string
  dc_document_id :: string
  dc_content :: string
  dc_chunk_index :: int
  dc_metadata :: metadata
  dc_embedding :: "real list option"

record SearchResult =
  sr_chunk_id :: string
  sr_document_id :: string
  sr_content :: string
  sr_similarity_score :: real
  sr_metadata :: metadata

text \<open>The constraint \<^verbatim>\<open>Field(ge=0.0, le=1.0)\<close> of \<^verbatim>\<open>LegalResponse.confidence_score\<close>.\<close>

fun ge0_le1 :: "pyfloat \<Rightarrow> bool" where
  "ge0_le1 (Finite r) = (0 \<le> r \<and> r \<le> 1)"
| "ge0_le1 PosInf = False"
| "ge0_le1 NegInf = False"

text \<open>
  The constructor of \<^verbatim>\<open>LegalResponse\<close>: the arguments are strings and lists of strings
  already, so the only field that can fail validation is the confidence score.
  \<^verbatim>\<open>created_at\<close> is the clock's value.
\<close>

definition LegalResponse_init ::
  "string \<Rightarrow> string \<Rightarrow> string \<Rightarrow> pyfloat \<Rightarrow> string \<Rightarrow> string list \<Rightarrow> string \<Rightarrow> nat
     \<Rightarrow> error + LegalResponse" where
  "LegalResponse_init document_id response_type suggested_response confidence_score
     reasoning key_points tone now =
     (if ge0_le1 confidence_score
      then Inr \<lparr>lr_document_id = document_id, lr_response_type = response_type,
                lr_suggested_response = suggested_response,
                lr_confidence_score = confidence_score, lr_reasoning = reasoning,
                lr_key_points = key_points, lr_tone = tone, lr_created_at = now\<rparr>
      else Inl ValidationError)"

section \<open>document_processor.py: the fact extractor\<close>

text \<open>The dictionary \<^verbatim>\<open>type_mapping\<close> of \<^verbatim>\<open>classify_document_type\<close>.\<close>

definition type_mapping :: "(string \<times> DocumentType) list" where
  "type_mapping =
     [(''legal_letter'', LEGAL_LETTER),
      (''contract'', CONTRACT),
      (''notice'', NOTICE),
      (''complaint'', COMPLAINT),
      (''response'', RESPONSE)]"

text \<open>
  \<^verbatim>\<open>classify_document_type\<close>. The argument is the outcome of \<^verbatim>\<open>self.llm.invoke\<close>
  on the prompt built from \<^verbatim>\<open>content[:2000]\<close>: the reply's content, or the exception
  the call raised. The body of the \<^verbatim>\<open>try\<close> is \<open>classify_body\<close>.
\<close>

definition classify_body :: "error + string \<Rightarrow> error + DocumentType" where
  "classify_body llm_reply =
     bind_err llm_reply
       (\<lambda>content.
          let doc_type_str = py_lower (py_strip content)
          in Inr (case map_of type_mapping doc_type_str of
                    Some t \<Rightarrow> t
                  | None \<Rightarrow> LEGAL_LETTER))"

definition classify_document_type :: "error + string \<Rightarrow> DocumentType" where
  "classify_document_type llm_reply =
     (case classify_body llm_reply of
        Inr t \<Rightarrow> t
      | Inl e \<Rightarrow> LEGAL_LETTER)"

text \<open>
  \<^verbatim>\<open>extract_parties_and_issues\<close>. \<open>parse_parties_issues\<close> is the parsing of
  \<^verbatim>\<open>response.content\<close>, \<open>extract_body\<close> the body of the \<^verbatim>\<open>try\<close> (the call, then the
  parsing), and the function itself returns two empty lists on any exception.
\<close>

definition parse_parties_issues :: "string \<Rightarrow> error + (string list \<times> string list)" where
  "parse_parties_issues response_text =
     bind_err
       (if py_in ''PARTIES:'' response_text
        then bind_err (py_split ''PARTIES:'' response_text) (\<lambda>a.
             bind_err (py_index a 1) (\<lambda>b.
             bind_err (py_split ''ISSUES:'' b) (\<lambda>c.
             bind_err (py_index c 0) (\<lambda>parties_section.
             comma_items parties_section))))
        else Inr [])
       (\<lambda>parties.
     bind_err
       (if py_in ''ISSUES:'' response_text
        then bind_err (py_split ''ISSUES:'' response_text) (\<lambda>a.
             bind_err (py_index a 1) (\<lambda>issues_section.
             comma_items issues_section))
        else Inr [])
       (\<lambda>issues. Inr (parties, issues)))"

definition extract_body :: "error + string \<Rightarrow> error + (string list \<times> string list)" where
  "extract_body llm_reply = bind_err llm_reply parse_parties_issues"

definition extract_parties_and_issues :: "error + string \<Rightarrow> string list \<times> string list" where
  "extract_parties_and_issues llm_reply =
     (case extract_body llm_reply of
        Inr r \<Rightarrow> r
      | Inl e \<Rightarrow> ([], []))"

subsection \<open>Sections of a reply, by position\<close>

text \<open>
  The text before the leftmost occurrence of a marker (all of it when there is none), and
  the text after that occurrence. The theorems on the parsers are stated with them.
\<close>

definition before_marker :: "'a list \<Rightarrow> 'a list \<Rightarrow> 'a list" where
  "before_marker m s = (case py_find m s of None \<Rightarrow> s | Some i \<Rightarrow> take i s)"

definition after_marker :: "'a list \<Rightarrow> 'a list \<Rightarrow> 'a list" where
  "after_marker m s = (case py_find m s of None \<Rightarrow> [] | Some i \<Rightarrow> drop (i + length m) s)"

text \<open>The items of a section: cut at commas, each piece stripped, empty pieces dropped.\<close>

definition items_of :: "string \<Rightarrow> string list" where
  "items_of sec =
     map py_strip (filter (\<lambda>p. py_strip p \<noteq> []) (split_pieces '','' (py_strip sec)))"

text \<open>
  The field of a marker as the specification words it: the comma-separated text that
  follows the marker, up to the next marker (either of the two) or the end of the reply;
  the empty list when the marker is missing.
\<close>

definition spec_field :: "string \<Rightarrow> string \<Rightarrow> string list" where
  "spec_field m reply =
     (if py_in m reply
      then items_of (before_marker ''PARTIES:'' (before_marker ''ISSUES:'' (after_marker m reply)))
      else [])"

section \<open>legal_agents.py: the retrieval-augmented generator\<close>

text \<open>
  What \<^verbatim>\<open>LegalAgentSystem\<close> calls outside the repository's parsing and assembly: the three
  tools (each ends in a call of the language model or of the index), the evaluation call
  of \<^verbatim>\<open>self.llm\<close> on the three fields of its prompt, Python's \<^verbatim>\<open>float\<close>, and the clock.
  Each call returns its value or the exception it raised.
\<close>

record agent_env =
  analysis_tool_run :: "string \<Rightarrow> error + string"
  precedent_tool_run :: "string \<Rightarrow> error + string"
  response_tool_run :: "string \<Rightarrow> string \<Rightarrow> string \<Rightarrow> error + string"
  llm_invoke :: "string \<Rightarrow> string \<Rightarrow> string \<Rightarrow> error + string"
  float_of :: "string \<Rightarrow> error + pyfloat"
  now :: nat

text \<open>\<^verbatim>\<open>sep.join(xs)\<close>.\<close>

fun py_join :: "'a list \<Rightarrow> 'a list list \<Rightarrow> 'a list" where
  "py_join sep [] = []"
| "py_join sep [x] = x"
| "py_join sep (x # y # ys) = x @ sep @ py_join sep (y # ys)"

text \<open>The dictionary \<^verbatim>\<open>_evaluate_response_quality\<close> returns.\<close>

record evaluation =
  ev_confidence :: pyfloat
  ev_reasoning :: string
  ev_key_points :: "string list"

text \<open>
  The parsing of the evaluation reply. The confidence is parsed inside a \<^verbatim>\<open>try\<close> of its
  own with a bare \<^verbatim>\<open>except: pass\<close>, which keeps the default.
\<close>

definition parse_confidence :: "(string \<Rightarrow> error + pyfloat) \<Rightarrow> string \<Rightarrow> pyfloat" where
  "parse_confidence float' eval_text =
     (if py_in ''CONFIDENCE:'' eval_text
      then (case bind_err (py_split ''CONFIDENCE:'' eval_text) (\<lambda>a.
                 bind_err (py_index a 1) (\<lambda>b.
                 bind_err (py_split ''REASONING:'' b) (\<lambda>c.
                 bind_err (py_index c 0) (\<lambda>conf_section.
                 float' (py_strip conf_section))))) of
              Inr confidence \<Rightarrow> confidence
            | Inl e \<Rightarrow> Finite 0.5)
      else Finite 0.5)"

definition parse_evaluation :: "(string \<Rightarrow> error + pyfloat) \<Rightarrow> string \<Rightarrow> error + evaluation" where
  "parse_evaluation float' eval_text =
     (let confidence = parse_confidence float' eval_text in
      bind_err
        (if py_in ''REASONING:'' eval_text
         then bind_err (py_split ''REASONING:'' eval_text) (\<lambda>a.
              bind_err (py_index a 1) (\<lambda>b.
              bind_err (py_split ''KEY_POINTS:'' b) (\<lambda>c.
              bind_err (py_index c 0) (\<lambda>reasoning_section.
              Inr (py_strip reasoning_section)))))
         else Inr ''Standard evaluation'')
        (\<lambda>reasoning.
      bind_err
        (if py_in ''KEY_POINTS:'' eval_text
         then bind_err (py_split ''KEY_POINTS:'' eval_text) (\<lambda>a.
              bind_err (py_index a 1) (\<lambda>points_section.
              comma_items points_section))
         else Inr [])
        (\<lambda>key_points.
      Inr \<lparr>ev_confidence = confidence, ev_reasoning = reasoning,
           ev_key_points = key_points\<rparr>)))"

text \<open>
  \<^verbatim>\<open>_evaluate_response_quality\<close>: the call of the model, the parsing, and the defaults of
  the \<^verbatim>\<open>except\<close> branch.
\<close>

definition evaluate_response_quality :: "agent_env \<Rightarrow> string \<Rightarrow> LegalDocument \<Rightarrow> evaluation" where
  "evaluate_response_quality env response document =
     (case bind_err
             (llm_invoke env (py_join '', '' (ld_key_issues document))
                (py_join '', '' (ld_parties_involved document)) response)
             (parse_evaluation (float_of env)) of
        Inr ev \<Rightarrow> ev
      | Inl e \<Rightarrow> \<lparr>ev_confidence = Finite 0.5, ev_reasoning = ''Evaluation failed'',
                   ev_key_points = []\<rparr>)"

text \<open>
  \<^verbatim>\<open>generate_legal_response\<close>: \<open>generate_body\<close> is the body of the \<^verbatim>\<open>try\<close>, the four
  stages and the construction of the response; \<open>error_response\<close> is the construction in
  the \<^verbatim>\<open>except\<close> branch, which is a constructor call like the other and is outside the
  \<^verbatim>\<open>try\<close>.
\<close>

definition generate_body :: "agent_env \<Rightarrow> LegalDocument \<Rightarrow> string \<Rightarrow> error + LegalResponse" where
  "generate_body env document response_type =
     bind_err (analysis_tool_run env (ld_content document)) (\<lambda>analysis.
     let search_query = ''legal issues: '' @ py_join '', '' (ld_key_issues document)
                        @ '' parties: '' @ py_join '', '' (ld_parties_involved document) in
     bind_err (precedent_tool_run env search_query) (\<lambda>precedents.
     bind_err (response_tool_run env analysis precedents response_type) (\<lambda>suggested_response.
     let confidence_analysis = evaluate_response_quality env suggested_response document in
     LegalResponse_init (ld_id document) response_type suggested_response
       (ev_confidence confidence_analysis) (ev_reasoning confidence_analysis)
       (ev_key_points confidence_analysis) response_type (now env))))"

definition error_response :: "agent_env \<Rightarrow> LegalDocument \<Rightarrow> string \<Rightarrow> error + LegalResponse" where
  "error_response env document response_type =
     LegalResponse_init (ld_id document) response_type
       ''Error generating response. Please try again.'' (Finite 0.0)
       ''Error occurred during response generation'' [] ''error'' (now env)"

definition generate_legal_response ::
  "agent_env \<Rightarrow> LegalDocument \<Rightarrow> string \<Rightarrow> error + LegalResponse" where
  "generate_legal_response env document response_type =
     (case generate_body env document response_type of
        Inr legal_response \<Rightarrow> Inr legal_response
      | Inl e \<Rightarrow> error_response env document response_type)"

section \<open>vector_store.py: the embedding index\<close>

text \<open>
  The Chroma collection is a service outside the repository. Each function of
  \<^verbatim>\<open>ChromaVectorStore\<close> takes the method of \<^verbatim>\<open>self.collection\<close> it calls as a function
  on the state \<open>'c\<close> of the collection, returning its value or the exception it raised,
  and \<^verbatim>\<open>_generate_embedding\<close> as the function \<open>generate_embedding\<close>. A call that raises
  leaves the collection as it was.
\<close>

text \<open>One stored entry: the four parallel lists given to \<^verbatim>\<open>collection.add\<close>, zipped.\<close>

record row =
  row_id :: string
  row_embedding :: "real list"
  row_document :: string
  row_metadata :: metadata

text \<open>The dictionaries \<^verbatim>\<open>collection.query\<close> and \<^verbatim>\<open>collection.get\<close> return.\<close>

record query_result =
  q_ids :: "string list list"
  q_metadatas :: "metadata list list"
  q_documents :: "string list list"
  q_distances :: "real list list"

record get_result =
  g_ids :: "string list"
  g_metadatas :: "metadata list"
  g_documents :: "string list"

text \<open>A \<^verbatim>\<open>for i in range(...)\<close> loop that appends one value per step, or raises.\<close>

fun for_range :: "(nat \<Rightarrow> error + 'a) \<Rightarrow> nat list \<Rightarrow> error + 'a list" where
  "for_range f [] = Inr []"
| "for_range f (i # is) =
     bind_err (f i) (\<lambda>x. bind_err (for_range f is) (\<lambda>xs. Inr (x # xs)))"

text \<open>
  The constructor of \<^verbatim>\<open>SearchResult\<close>: \<^verbatim>\<open>document_id\<close> comes out of a metadata
  dictionary and has to be a string; \<^verbatim>\<open>similarity_score\<close> has no bounds.
\<close>

definition SearchResult_init ::
  "string \<Rightarrow> meta_value \<Rightarrow> string \<Rightarrow> real \<Rightarrow> metadata \<Rightarrow> error + SearchResult" where
  "SearchResult_init chunk_id document_id content similarity_score meta =
     bind_err (validate_str document_id) (\<lambda>d.
     Inr \<lparr>sr_chunk_id = chunk_id, sr_document_id = d, sr_content = content,
          sr_similarity_score = similarity_score, sr_metadata = meta\<rparr>)"

text \<open>\<^verbatim>\<open>search_similar\<close>: one step of the loop, the body of the \<^verbatim>\<open>try\<close>, the function.\<close>

definition search_entry :: "query_result \<Rightarrow> nat \<Rightarrow> error + SearchResult" where
  "search_entry results i =
     bind_err (py_index (q_ids results) 0) (\<lambda>ids0.
     bind_err (py_index ids0 i) (\<lambda>chunk_id.
     bind_err (py_index (q_metadatas results) 0) (\<lambda>metadatas0.
     bind_err (py_index metadatas0 i) (\<lambda>meta.
     bind_err (dict_item meta ''document_id'') (\<lambda>document_id.
     bind_err (py_index (q_documents results) 0) (\<lambda>documents0.
     bind_err (py_index documents0 i) (\<lambda>content.
     bind_err (py_index (q_distances results) 0) (\<lambda>distances0.
     bind_err (py_index distances0 i) (\<lambda>distance.
     SearchResult_init chunk_id document_id content (1 - distance) meta)))))))))"

definition search_body ::
  "(string \<Rightarrow> error + real list) \<Rightarrow> ('c \<Rightarrow> real list list \<Rightarrow> nat \<Rightarrow> error + query_result)
     \<Rightarrow> 'c \<Rightarrow> string \<Rightarrow> nat \<Rightarrow> error + SearchResult list" where
  "search_body generate_embedding coll_query c query n_results =
     bind_err (generate_embedding query) (\<lambda>query_embedding.
     bind_err (coll_query c [query_embedding] n_results) (\<lambda>results.
     bind_err (py_index (q_ids results) 0) (\<lambda>ids0.
     for_range (search_entry results) [0..<length ids0])))"

definition search_similar ::
  "(string \<Rightarrow> error + real list) \<Rightarrow> ('c \<Rightarrow> real list list \<Rightarrow> nat \<Rightarrow> error + query_result)
     \<Rightarrow> 'c \<Rightarrow> string \<Rightarrow> nat \<Rightarrow> SearchResult list" where
  "search_similar generate_embedding coll_query c query n_results =
     (case search_body generate_embedding coll_query c query n_results of
        Inr search_results \<Rightarrow> search_results
      | Inl e \<Rightarrow> [])"

text \<open>\<^verbatim>\<open>get_document_chunks\<close>, in the same three parts.\<close>

definition chunk_entry :: "get_result \<Rightarrow> nat \<Rightarrow> error + SearchResult" where
  "chunk_entry results i =
     bind_err (py_index (g_ids results) i) (\<lambda>chunk_id.
     bind_err (py_index (g_metadatas results) i) (\<lambda>meta.
     bind_err (dict_item meta ''document_id'') (\<lambda>document_id.
     bind_err (py_index (g_documents results) i) (\<lambda>content.
     SearchResult_init chunk_id document_id content 1 meta))))"

definition chunks_body ::
  "('c \<Rightarrow> string \<Rightarrow> error + get_result) \<Rightarrow> 'c \<Rightarrow> string \<Rightarrow> error + SearchResult list" where
  "chunks_body coll_get c document_id =
     bind_err (coll_get c document_id) (\<lambda>results.
     for_range (chunk_entry results) [0..<length (g_ids results)])"

definition get_document_chunks ::
  "('c \<Rightarrow> string \<Rightarrow> error + get_result) \<Rightarrow> 'c \<Rightarrow> string \<Rightarrow> SearchResult list" where
  "get_document_chunks coll_get c document_id =
     (case chunks_body coll_get c document_id of
        Inr search_results \<Rightarrow> search_results
      | Inl e \<Rightarrow> [])"

text \<open>\<^verbatim>\<open>delete_document\<close>: the flag it returns, and the collection afterwards.\<close>

definition delete_document ::
  "('c \<Rightarrow> string \<Rightarrow> error + 'c) \<Rightarrow> 'c \<Rightarrow> string \<Rightarrow> bool \<times> 'c" where
  "delete_document coll_delete c document_id =
     (case coll_delete c document_id of
        Inr c' \<Rightarrow> (True, c')
      | Inl e \<Rightarrow> (False, c))"

text \<open>
  \<^verbatim>\<open>add_chunks\<close> assigns to \<^verbatim>\<open>chunk.embedding\<close> of the objects in the caller's list. The
  objects live in a heap, the list holds their addresses, and the function returns the
  heap it leaves behind, also when it fails half way. An address without an object cannot
  occur in Python; the model answers it with an error.
\<close>

type_synonym chunk_heap = "nat \<Rightarrow> DocumentChunk option"

text \<open>
  The entry built for one chunk. In the metadata the keys of \<^verbatim>\<open>**chunk.metadata\<close> come
  last in the source and so override the four keys before them: in the association list
  they stand first.
\<close>

definition chunk_row :: "DocumentChunk \<Rightarrow> real list \<Rightarrow> row" where
  "chunk_row chunk e =
     \<lparr>row_id = dc_id chunk, row_embedding = e, row_document = dc_content chunk,
      row_metadata =
        dc_metadata chunk @
        [(''document_id'', MStr (dc_document_id chunk)),
         (''chunk_index'', MInt (dc_chunk_index chunk)),
         (''filename'', dict_get (dc_metadata chunk) ''filename'' (MStr [])),
         (''document_type'', dict_get (dc_metadata chunk) ''document_type'' (MStr []))]\<rparr>"

fun add_chunks_loop ::
  "(string \<Rightarrow> error + real list) \<Rightarrow> chunk_heap \<Rightarrow> nat list \<Rightarrow> chunk_heap \<times> (error + row list)" where
  "add_chunks_loop generate_embedding h [] = (h, Inr [])"
| "add_chunks_loop generate_embedding h (a # as) =
     (case h a of
        None \<Rightarrow> (h, Inl KeyError)
      | Some chunk \<Rightarrow>
          (case dc_embedding chunk of
             None \<Rightarrow>
               (case generate_embedding (dc_content chunk) of
                  Inl e \<Rightarrow> (h, Inl e)
                | Inr v \<Rightarrow>
                    (case add_chunks_loop generate_embedding (h(a \<mapsto> chunk\<lparr>dc_embedding := Some v\<rparr>)) as of
                       (h', Inl e) \<Rightarrow> (h', Inl e)
                     | (h', Inr rows) \<Rightarrow> (h', Inr (chunk_row chunk v # rows))))
           | Some v \<Rightarrow>
               (case add_chunks_loop generate_embedding h as of
                  (h', Inl e) \<Rightarrow> (h', Inl e)
                | (h', Inr rows) \<Rightarrow> (h', Inr (chunk_row chunk v # rows)))))"

definition add_chunks ::
  "(string \<Rightarrow> error + real list) \<Rightarrow> ('c \<Rightarrow> row list \<Rightarrow> error + 'c) \<Rightarrow> chunk_heap \<Rightarrow> 'c
     \<Rightarrow> nat list \<Rightarrow> bool \<times> chunk_heap \<times> 'c" where
  "add_chunks generate_embedding coll_add h c chunks =
     (case add_chunks_loop generate_embedding h chunks of
        (h', Inl e) \<Rightarrow> (False, h', c)
      | (h', Inr rows) \<Rightarrow>
          (case coll_add c rows of
             Inl e \<Rightarrow> (False, h', c)
           | Inr c' \<Rightarrow> (True, h', c')))"

subsection \<open>The index of the specification\<close>

text \<open>
  Modelled from the spec: the persistent vector index behind \<^verbatim>\<open>self.collection\<close>, whose
  \<^verbatim>\<open>get\<close> and \<^verbatim>\<open>delete\<close> with the filter \<^verbatim>\<open>where={"document_id": ...}\<close> are methods of the
  Chroma library. The index is the list of its entries; filtered retrieval is an exact
  filter on the document id in the metadata and returns every entry of that document;
  deletion removes every entry whose metadata references the document id, and succeeds
  when there is none.
\<close>

type_synonym index = "row list"

definition references :: "string \<Rightarrow> row \<Rightarrow> bool" where
  "references document_id r = (map_of (row_metadata r) ''document_id'' = Some (MStr document_id))"

definition index_get :: "index \<Rightarrow> string \<Rightarrow> error + get_result" where
  "index_get c document_id =
     (let found = filter (references document_id) c
      in Inr \<lparr>g_ids = map row_id found, g_metadatas = map row_metadata found,
              g_documents = map row_document found\<rparr>)"

definition index_delete :: "index \<Rightarrow> string \<Rightarrow> error + index" where
  "index_delete c document_id = Inr (filter (\<lambda>r. \<not> references document_id r) c)"

section \<open>legal_ai_system.py: the orchestrator\<close>

text \<open>
  The constructor of \<^verbatim>\<open>LegalDocument\<close> on values taken out of a metadata dictionary:
  each is validated by the type of its field.
\<close>

definition LegalDocument_init ::
  "string \<Rightarrow> meta_value \<Rightarrow> string \<Rightarrow> meta_value \<Rightarrow> meta_value \<Rightarrow> meta_value \<Rightarrow> metadata \<Rightarrow> nat
     \<Rightarrow> error + LegalDocument" where
  "LegalDocument_init id' filename content document_type parties_involved key_issues meta now' =
     bind_err (validate_str filename) (\<lambda>f.
     bind_err (validate_DocumentType document_type) (\<lambda>t.
     bind_err (validate_str_list parties_involved) (\<lambda>ps.
     bind_err (validate_str_list key_issues) (\<lambda>ks.
     Inr \<lparr>ld_id = id', ld_filename = f, ld_content = content, ld_document_type = t,
          ld_metadata = meta, ld_created_at = now', ld_parties_involved = ps,
          ld_key_issues = ks\<rparr>))))"

text \<open>
  \<^verbatim>\<open>generate_response_for_document\<close>: \<open>response_body\<close> is the body of the \<^verbatim>\<open>try\<close>, whose
  \<open>Inr None\<close> is the \<^verbatim>\<open>return None\<close> after the test \<^verbatim>\<open>if not chunks\<close>.
\<close>

definition response_body ::
  "('c \<Rightarrow> string \<Rightarrow> error + get_result) \<Rightarrow> 'c \<Rightarrow> agent_env \<Rightarrow> string \<Rightarrow> string
     \<Rightarrow> error + LegalResponse option" where
  "response_body coll_get c env document_id response_type =
     (let chunks = get_document_chunks coll_get c document_id in
      if chunks = [] then Inr None
      else
        let content = py_join [CHR 0x0A] (map sr_content chunks) in
        bind_err (py_index chunks 0) (\<lambda>first.
        let meta = sr_metadata first in
        bind_err (LegalDocument_init document_id
                    (dict_get meta ''filename'' (MStr ''Unknown'')) content
                    (dict_get meta ''document_type'' (MStr ''legal_letter''))
                    (dict_get meta ''parties_involved'' (MList []))
                    (dict_get meta ''key_issues'' (MList [])) meta (now env)) (\<lambda>document.
        bind_err (generate_legal_response env document response_type) (\<lambda>response.
        Inr (Some response)))))"

definition generate_response_for_document ::
  "('c \<Rightarrow> string \<Rightarrow> error + get_result) \<Rightarrow> 'c \<Rightarrow> agent_env \<Rightarrow> string \<Rightarrow> string
     \<Rightarrow> LegalResponse option" where
  "generate_response_for_document coll_get c env document_id response_type =
     (case response_body coll_get c env document_id response_type of
        Inr r \<Rightarrow> r
      | Inl e \<Rightarrow> None)"

section \<open>Concrete inputs for the examples\<close>

text \<open>
  An environment whose evaluation call returns a confidence above 1, one whose evaluation
  reply has a confidence that is no number and no key points, and a document.
\<close>

definition demo_env :: agent_env where
  "demo_env =
     \<lparr>analysis_tool_run = (\<lambda>content. Inr ''Issues: late payment''),
      precedent_tool_run = (\<lambda>query. Inr ''No similar precedents found in the knowledge base.''),
      response_tool_run = (\<lambda>analysis precedents response_type. Inr ''Dear Sir''),
      llm_invoke = (\<lambda>issues parties response. Inr ''CONFIDENCE: 1.5 REASONING: very sure''),
      float_of = (\<lambda>s. if s = ''1.5'' then Inr (Finite 1.5) else Inl ValueError),
      now = 0\<rparr>"

definition demo_env_words :: agent_env where
  "demo_env_words =
     demo_env\<lparr>llm_invoke := (\<lambda>issues parties response. Inr ''CONFIDENCE: high REASONING: sound'')\<rparr>"

definition demo_document :: LegalDocument where
  "demo_document =
     \<lparr>ld_id = ''doc-1'', ld_filename = ''letter.pdf'', ld_content = ''Pay within 14 days.'',
      ld_document_type = LEGAL_LETTER, ld_metadata = [], ld_created_at = 0,
      ld_parties_involved = [''Acme''], ld_key_issues = [''late payment'']\<rparr>"

text \<open>
  An index holding one chunk of the document \<open>doc-2\<close>, and the services that answer a
  query with two neighbours at the distances 0.5 and 2.
\<close>

definition demo_index :: index where
  "demo_index =
     [\<lparr>row_id = ''chunk-7'', row_embedding = [0, 1], row_document = ''Notice of termination'',
       row_metadata = [(''document_id'', MStr ''doc-2''), (''chunk_index'', MInt 0),
                       (''filename'', MStr ''notice.pdf''), (''document_type'', MStr ''notice'')]\<rparr>]"

definition demo_embedding :: "string \<Rightarrow> error + real list" where
  "demo_embedding text' = Inr [1, 0]"

definition demo_query :: "index \<Rightarrow> real list list \<Rightarrow> nat \<Rightarrow> error + query_result" where
  "demo_query c query_embeddings n_results =
     Inr \<lparr>q_ids = [[''chunk-3'', ''chunk-7'']],
          q_metadatas = [[[(''document_id'', MStr ''doc-1'')], [(''document_id'', MStr ''doc-2'')]]],
          q_documents = [[''Pay within 14 days.'', ''Notice of termination'']],
          q_distances = [[0.5, 2]]\<rparr>"

text \<open>
  A heap with two chunks, the first without an embedding, and a collection whose
  \<^verbatim>\<open>add\<close> appends the entries.
\<close>

definition demo_heap :: chunk_heap where
  "demo_heap =
     [0 \<mapsto> \<lparr>dc_id = ''chunk-1'', dc_document_id = ''doc-1'', dc_content = ''Pay'',
             dc_chunk_index = 0, dc_metadata = [], dc_embedding = None\<rparr>,
      1 \<mapsto> \<lparr>dc_id = ''chunk-2'', dc_document_id = ''doc-1'', dc_content = ''now'',
             dc_chunk_index = 1, dc_metadata = [], dc_embedding = Some [0, 1]\<rparr>]"

definition demo_add :: "index \<Rightarrow> row list \<Rightarrow> error + index" where
  "demo_add c rows = Inr (c @ rows)"

section \<open>Classification falls back to the default category\<close>

text \<open>
  C5. A reply that, stripped and lower-cased, is none of the five category names is
  classified as \<open>LEGAL_LETTER\<close>, and so is every failure of the call. Inside the
  \<^verbatim>\<open>try\<close> only the call itself can raise: the lookup has a default.
\<close>

theorem classify_default:
  "classify_document_type (Inl e) = LEGAL_LETTER \<and>
   (py_lower (py_strip reply) \<notin> fst ` set type_mapping \<longrightarrow>
      classify_body (Inr reply) = Inr LEGAL_LETTER \<and>
      classify_document_type (Inr reply) = LEGAL_LETTER)"
proof -
  have "map_of type_mapping k = None" if "k \<notin> fst ` set type_mapping" for k
    using that by (simp add: map_of_eq_None_iff)
  then show ?thesis
    by (simp add: classify_document_type_def classify_body_def bind_err_def Let_def)
qed

theorem classify_default_witness:
  "py_lower (py_strip '' Memo '') \<notin> fst ` set type_mapping \<and>
   classify_document_type (Inr '' Memo '') = LEGAL_LETTER \<and>
   classify_document_type (Inl (ServiceError ''timeout'')) = LEGAL_LETTER"
proof -
  have h: "py_lower (py_strip '' Memo '') \<notin> fst ` set type_mapping"
    by code_simp
  from classify_default [of "ServiceError ''timeout''" "'' Memo ''"] h
  show ?thesis by blast
qed

section \<open>The pieces of a split\<close>

lemma split_pieces_0:
  "sep \<noteq> [] \<Longrightarrow> py_index (split_pieces sep s) 0 = Inr (before_marker sep s)"
  by (subst split_pieces.simps) (simp add: py_index_def before_marker_def split: option.splits)

lemma split_pieces_1:
  assumes "sep \<noteq> []" and "py_in sep s"
  shows "py_index (split_pieces sep s) (Suc 0) = Inr (before_marker sep (after_marker sep s))"
proof -
  from assms(2) obtain i where i: "py_find sep s = Some i"
    by (auto simp: py_in_def)
  let ?rest = "drop (i + length sep) s"
  have "split_pieces sep s = take i s # split_pieces sep ?rest"
    using assms(1) i by (subst split_pieces.simps) simp
  moreover have "py_index (split_pieces sep ?rest) 0 = Inr (before_marker sep ?rest)"
    using assms(1) by (rule split_pieces_0)
  ultimately show ?thesis
    using i by (simp add: py_index_def after_marker_def split: if_splits)
qed

lemma comma_items_eq: "comma_items sec = Inr (items_of sec)"
  by (simp add: comma_items_def items_of_def py_split_def bind_err_def)

section \<open>Extraction of parties and issues\<close>

text \<open>
  C6, as the code has it. The parties are the items of the text after the first
  \<^verbatim>\<open>PARTIES:\<close> up to the next \<^verbatim>\<open>PARTIES:\<close> or \<^verbatim>\<open>ISSUES:\<close> or the end of the reply; the
  issues are the items of the text after the first \<^verbatim>\<open>ISSUES:\<close> up to the next \<^verbatim>\<open>ISSUES:\<close>
  or the end of the reply, so a \<^verbatim>\<open>PARTIES:\<close> marker after \<^verbatim>\<open>ISSUES:\<close> does not end them. A
  missing marker gives the empty list, the parsing never raises, and a failed call gives
  two empty lists.
\<close>

theorem extraction_sections:
  "extract_parties_and_issues (Inl e) = ([], []) \<and>
   parse_parties_issues reply =
     Inr (if py_in ''PARTIES:'' reply
          then items_of (before_marker ''ISSUES:''
                 (before_marker ''PARTIES:'' (after_marker ''PARTIES:'' reply)))
          else [],
          if py_in ''ISSUES:'' reply
          then items_of (before_marker ''ISSUES:'' (after_marker ''ISSUES:'' reply))
          else []) \<and>
   extract_parties_and_issues (Inr reply) =
     (if py_in ''PARTIES:'' reply
      then items_of (before_marker ''ISSUES:''
             (before_marker ''PARTIES:'' (after_marker ''PARTIES:'' reply)))
      else [],
      if py_in ''ISSUES:'' reply
      then items_of (before_marker ''ISSUES:'' (after_marker ''ISSUES:'' reply))
      else [])"
  by (simp add: extract_parties_and_issues_def extract_body_def parse_parties_issues_def
      bind_err_def py_split_def split_pieces_0 split_pieces_1 comma_items_eq)

text \<open>
  The claim as the specification states it fails on a reply that names the issues first:
  the issues then run on through the \<^verbatim>\<open>PARTIES:\<close> marker, where the specification ends
  them at that marker.
\<close>

theorem extraction_counterexample:
  "extract_parties_and_issues (Inr ''ISSUES: fraud PARTIES: Acme'') =
     ([''Acme''], [''fraud PARTIES: Acme'']) \<and>
   spec_field ''ISSUES:'' ''ISSUES: fraud PARTIES: Acme'' = [''fraud''] \<and>
   snd (extract_parties_and_issues (Inr ''ISSUES: fraud PARTIES: Acme'')) \<noteq>
     spec_field ''ISSUES:'' ''ISSUES: fraud PARTIES: Acme''"
  by code_simp

section \<open>Parsing of the evaluation reply\<close>

lemma parse_confidence_eq:
  "parse_confidence fl txt =
     (if py_in ''CONFIDENCE:'' txt
      then (case fl (py_strip (before_marker ''REASONING:''
                      (before_marker ''CONFIDENCE:'' (after_marker ''CONFIDENCE:'' txt)))) of
              Inr v \<Rightarrow> v | Inl e \<Rightarrow> Finite 0.5)
      else Finite 0.5)"
  by (simp add: parse_confidence_def bind_err_def py_split_def split_pieces_0 split_pieces_1)

lemma parse_evaluation_eq:
  "parse_evaluation fl txt =
     Inr \<lparr>ev_confidence = parse_confidence fl txt,
          ev_reasoning =
            (if py_in ''REASONING:'' txt
             then py_strip (before_marker ''KEY_POINTS:''
                    (before_marker ''REASONING:'' (after_marker ''REASONING:'' txt)))
             else ''Standard evaluation''),
          ev_key_points =
            (if py_in ''KEY_POINTS:'' txt
             then items_of (before_marker ''KEY_POINTS:'' (after_marker ''KEY_POINTS:'' txt))
             else [])\<rparr>"
  by (simp add: parse_evaluation_def bind_err_def py_split_def split_pieces_0 split_pieces_1
      comma_items_eq Let_def)

text \<open>
  C3. Whatever the model replies, the parsing returns (it never raises, so the defaults of
  the \<^verbatim>\<open>except\<close> branch are those of a failed call only). The confidence is 0.5 when the
  \<^verbatim>\<open>CONFIDENCE:\<close> marker is missing or \<^verbatim>\<open>float\<close> raises on its section; the reasoning is
  the fixed string when \<^verbatim>\<open>REASONING:\<close> is missing; the key points are empty when
  \<^verbatim>\<open>KEY_POINTS:\<close> is missing, and then the confidence and the reasoning are still those of
  the sections that are present.
\<close>

theorem evaluation_defaults:
  assumes "llm_invoke env (py_join '', '' (ld_key_issues document))
             (py_join '', '' (ld_parties_involved document)) response = Inr txt"
  shows "parse_evaluation (float_of env) txt = Inr (evaluate_response_quality env response document)
    \<and> (\<not> py_in ''CONFIDENCE:'' txt \<or>
         isl (float_of env (py_strip (before_marker ''REASONING:''
                (before_marker ''CONFIDENCE:'' (after_marker ''CONFIDENCE:'' txt)))))
       \<longrightarrow> ev_confidence (evaluate_response_quality env response document) = Finite 0.5)
    \<and> (\<not> py_in ''REASONING:'' txt
       \<longrightarrow> ev_reasoning (evaluate_response_quality env response document) = ''Standard evaluation'')
    \<and> (\<not> py_in ''KEY_POINTS:'' txt
       \<longrightarrow> ev_key_points (evaluate_response_quality env response document) = []
         \<and> (py_in ''CONFIDENCE:'' txt \<longrightarrow>
              (\<forall>v. float_of env (py_strip (before_marker ''REASONING:''
                      (before_marker ''CONFIDENCE:'' (after_marker ''CONFIDENCE:'' txt)))) = Inr v
                 \<longrightarrow> ev_confidence (evaluate_response_quality env response document) = v))
         \<and> (py_in ''REASONING:'' txt \<longrightarrow>
              ev_reasoning (evaluate_response_quality env response document) =
                py_strip (before_marker ''KEY_POINTS:''
                  (before_marker ''REASONING:'' (after_marker ''REASONING:'' txt)))))"
proof -
  have ev: "evaluate_response_quality env response document =
      \<lparr>ev_confidence = parse_confidence (float_of env) txt,
          ev_reasoning =
            (if py_in ''REASONING:'' txt
             then py_strip (before_marker ''KEY_POINTS:''
                    (before_marker ''REASONING:'' (after_marker ''REASONING:'' txt)))
             else ''Standard evaluation''),
          ev_key_points =
            (if py_in ''KEY_POINTS:'' txt
             then items_of (before_marker ''KEY_POINTS:'' (after_marker ''KEY_POINTS:'' txt))
             else [])\<rparr>"
    using assms by (simp add: evaluate_response_quality_def bind_err_def parse_evaluation_eq)
  show ?thesis
    unfolding ev by (auto simp: parse_evaluation_eq parse_confidence_eq split: sum.splits)
qed

theorem evaluation_defaults_witness:
  "\<not> py_in ''KEY_POINTS:'' ''CONFIDENCE: high REASONING: sound'' \<and>
   py_in ''REASONING:'' ''CONFIDENCE: high REASONING: sound'' \<and>
   isl (float_of demo_env_words (py_strip (before_marker ''REASONING:''
          (before_marker ''CONFIDENCE:''
             (after_marker ''CONFIDENCE:'' ''CONFIDENCE: high REASONING: sound''))))) \<and>
   ev_confidence (evaluate_response_quality demo_env_words ''Dear Sir'' demo_document) = Finite 0.5 \<and>
   ev_reasoning (evaluate_response_quality demo_env_words ''Dear Sir'' demo_document) = ''sound'' \<and>
   ev_key_points (evaluate_response_quality demo_env_words ''Dear Sir'' demo_document) = []"
proof -
  have call: "llm_invoke demo_env_words (py_join '', '' (ld_key_issues demo_document))
      (py_join '', '' (ld_parties_involved demo_document)) ''Dear Sir'' =
      Inr ''CONFIDENCE: high REASONING: sound''"
    by (simp add: demo_env_words_def)
  have no_points: "\<not> py_in ''KEY_POINTS:'' ''CONFIDENCE: high REASONING: sound''"
    by code_simp
  have reasoning: "py_in ''REASONING:'' ''CONFIDENCE: high REASONING: sound''"
    by code_simp
  have no_float: "isl (float_of demo_env_words (py_strip (before_marker ''REASONING:''
          (before_marker ''CONFIDENCE:''
             (after_marker ''CONFIDENCE:'' ''CONFIDENCE: high REASONING: sound'')))))"
    by code_simp
  have sound: "py_strip (before_marker ''KEY_POINTS:'' (before_marker ''REASONING:''
          (after_marker ''REASONING:'' ''CONFIDENCE: high REASONING: sound''))) = ''sound''"
    by code_simp
  from evaluation_defaults [OF call] no_points reasoning no_float sound
  show ?thesis by simp
qed

section \<open>The generation pipeline\<close>

lemma error_response_eq:
  "error_response env d rt =
     Inr \<lparr>lr_document_id = ld_id d, lr_response_type = rt,
          lr_suggested_response = ''Error generating response. Please try again.'',
          lr_confidence_score = Finite 0,
          lr_reasoning = ''Error occurred during response generation'',
          lr_key_points = [], lr_tone = ''error'', lr_created_at = now env\<rparr>"
  by (simp add: error_response_def LegalResponse_init_def)

text \<open>
  C2. \<^verbatim>\<open>generate_legal_response\<close> always returns a response: the construction in the
  \<^verbatim>\<open>except\<close> branch passes validation, since 0.0 is within the bounds. The response is
  either the error response (confidence 0.0, tone \<^verbatim>\<open>error\<close>) or the one assembled from the
  text of the generate stage and the fields of the evaluate stage.
\<close>

theorem pipeline_total:
  "\<exists>r. generate_legal_response env document response_type = Inr r \<and>
     (r = \<lparr>lr_document_id = ld_id document, lr_response_type = response_type,
           lr_suggested_response = ''Error generating response. Please try again.'',
           lr_confidence_score = Finite 0,
           lr_reasoning = ''Error occurred during response generation'',
           lr_key_points = [], lr_tone = ''error'', lr_created_at = now env\<rparr>
      \<or> (\<exists>analysis precedents suggested.
            analysis_tool_run env (ld_content document) = Inr analysis \<and>
            precedent_tool_run env
              (''legal issues: '' @ py_join '', '' (ld_key_issues document)
               @ '' parties: '' @ py_join '', '' (ld_parties_involved document)) = Inr precedents \<and>
            response_tool_run env analysis precedents response_type = Inr suggested \<and>
            r = \<lparr>lr_document_id = ld_id document, lr_response_type = response_type,
                  lr_suggested_response = suggested,
                  lr_confidence_score =
                    ev_confidence (evaluate_response_quality env suggested document),
                  lr_reasoning = ev_reasoning (evaluate_response_quality env suggested document),
                  lr_key_points = ev_key_points (evaluate_response_quality env suggested document),
                  lr_tone = response_type, lr_created_at = now env\<rparr>))"
  by (auto simp: generate_legal_response_def generate_body_def bind_err_def error_response_eq
      LegalResponse_init_def Let_def split: sum.splits if_splits)

text \<open>
  C9. The confidence of the response returned is a finite value within [0,1]. When the
  three stages return and the confidence of the evaluation is outside the bounds, the
  construction of the response fails validation and the error response, with confidence
  0.0, is returned: the value is not clamped.
\<close>

theorem confidence_constraint:
  "\<exists>r c. generate_legal_response env document response_type = Inr r \<and>
     lr_confidence_score r = Finite c \<and> 0 \<le> c \<and> c \<le> 1 \<and>
     (\<forall>analysis precedents suggested.
        analysis_tool_run env (ld_content document) = Inr analysis \<and>
        precedent_tool_run env
          (''legal issues: '' @ py_join '', '' (ld_key_issues document)
           @ '' parties: '' @ py_join '', '' (ld_parties_involved document)) = Inr precedents \<and>
        response_tool_run env analysis precedents response_type = Inr suggested \<and>
        \<not> ge0_le1 (ev_confidence (evaluate_response_quality env suggested document))
        \<longrightarrow> generate_body env document response_type = Inl ValidationError \<and>
            r = \<lparr>lr_document_id = ld_id document, lr_response_type = response_type,
                  lr_suggested_response = ''Error generating response. Please try again.'',
                  lr_confidence_score = Finite 0,
                  lr_reasoning = ''Error occurred during response generation'',
                  lr_key_points = [], lr_tone = ''error'', lr_created_at = now env\<rparr>)"
proof (cases "generate_body env document response_type")
  case (Inl e)
  then have "generate_legal_response env document response_type =
      Inr \<lparr>lr_document_id = ld_id document, lr_response_type = response_type,
          lr_suggested_response = ''Error generating response. Please try again.'',
          lr_confidence_score = Finite 0,
          lr_reasoning = ''Error occurred during response generation'',
          lr_key_points = [], lr_tone = ''error'', lr_created_at = now env\<rparr>"
    by (simp add: generate_legal_response_def error_response_eq)
  moreover from Inl have
    "analysis_tool_run env (ld_content document) = Inr analysis \<Longrightarrow>
     precedent_tool_run env
          (''legal issues: '' @ py_join '', '' (ld_key_issues document)
           @ '' parties: '' @ py_join '', '' (ld_parties_involved document)) = Inr precedents \<Longrightarrow>
     response_tool_run env analysis precedents response_type = Inr suggested \<Longrightarrow>
     e = ValidationError" for analysis precedents suggested
    by (simp add: generate_body_def bind_err_def LegalResponse_init_def Let_def split: if_splits)
  ultimately show ?thesis using Inl by auto
next
  case (Inr r)
  then have g: "generate_legal_response env document response_type = Inr r"
    by (simp add: generate_legal_response_def)
  from Inr have ok: "ge0_le1 (lr_confidence_score r)"
    by (auto simp: generate_body_def bind_err_def LegalResponse_init_def Let_def
        split: sum.splits if_splits)
  then obtain c where c: "lr_confidence_score r = Finite c" "0 \<le> c" "c \<le> 1"
    by (cases "lr_confidence_score r") auto
  from Inr have
    "analysis_tool_run env (ld_content document) = Inr analysis \<Longrightarrow>
     precedent_tool_run env
          (''legal issues: '' @ py_join '', '' (ld_key_issues document)
           @ '' parties: '' @ py_join '', '' (ld_parties_involved document)) = Inr precedents \<Longrightarrow>
     response_tool_run env analysis precedents response_type = Inr suggested \<Longrightarrow>
     ge0_le1 (ev_confidence (evaluate_response_quality env suggested document))"
    for analysis precedents suggested
    by (simp add: generate_body_def bind_err_def LegalResponse_init_def Let_def split: if_splits)
  with g c show ?thesis by auto
qed

theorem confidence_constraint_witness:
  "\<not> ge0_le1 (ev_confidence (evaluate_response_quality demo_env ''Dear Sir'' demo_document)) \<and>
   generate_legal_response demo_env demo_document ''professional'' =
     Inr \<lparr>lr_document_id = ''doc-1'', lr_response_type = ''professional'',
          lr_suggested_response = ''Error generating response. Please try again.'',
          lr_confidence_score = Finite 0,
          lr_reasoning = ''Error occurred during response generation'',
          lr_key_points = [], lr_tone = ''error'', lr_created_at = 0\<rparr>"
proof -
  have conf: "ev_confidence (evaluate_response_quality demo_env ''Dear Sir'' demo_document) = Finite 1.5"
    by code_simp
  have h: "\<not> ge0_le1 (ev_confidence (evaluate_response_quality demo_env ''Dear Sir'' demo_document))"
    unfolding conf by simp
  have stages:
    "analysis_tool_run demo_env (ld_content demo_document) = Inr ''Issues: late payment''"
    "precedent_tool_run demo_env
       (''legal issues: '' @ py_join '', '' (ld_key_issues demo_document)
        @ '' parties: '' @ py_join '', '' (ld_parties_involved demo_document)) =
       Inr ''No similar precedents found in the knowledge base.''"
    "response_tool_run demo_env ''Issues: late payment''
       ''No similar precedents found in the knowledge base.'' ''professional'' = Inr ''Dear Sir''"
    by (simp_all add: demo_env_def)
  from confidence_constraint [of demo_env demo_document "''professional''"] h stages
  show ?thesis
    by (auto simp: demo_env_def demo_document_def)
qed

section \<open>Similarity search\<close>

lemma for_range_nth:
  "for_range f is = Inr xs \<Longrightarrow>
     length xs = length is \<and> (\<forall>k<length is. f (is ! k) = Inr (xs ! k))"
proof (induction "is" arbitrary: xs)
  case Nil
  then show ?case by simp
next
  case (Cons i "is")
  from Cons.prems obtain x ys where x: "f i = Inr x" and ys: "for_range f is = Inr ys"
    and xs: "xs = x # ys"
    by (auto simp: bind_err_def split: sum.splits)
  from Cons.IH [OF ys] have "length ys = length is"
    and "\<forall>k<length is. f (is ! k) = Inr (ys ! k)" by simp_all
  with x xs show ?case by (auto simp: nth_Cons split: nat.splits)
qed

lemma search_entry_score:
  assumes "search_entry results k = Inr r" and "py_index (q_distances results) 0 = Inr ds"
  shows "k < length ds \<and> sr_similarity_score r = 1 - ds ! k"
  using assms
  by (auto simp: search_entry_def bind_err_def SearchResult_init_def py_index_def
      split: sum.splits if_splits)

lemma descending_scores:
  fixes ds :: "real list"
  shows "sorted ds \<Longrightarrow> sorted (rev (map (\<lambda>d. 1 - d) ds))"
  by (induction ds) (auto simp: sorted_append)

lemma search_scores:
  assumes body: "search_body generate_embedding coll_query c query n = Inr rs"
    and q: "generate_embedding query = Inr qe" "coll_query c [qe] n = Inr results"
    and ds: "py_index (q_distances results) 0 = Inr ds"
  shows "length rs \<le> length ds" and "\<forall>k<length rs. sr_similarity_score (rs ! k) = 1 - ds ! k"
proof -
  from body q have "\<exists>ids0 :: string list. for_range (search_entry results) [0..<length ids0] = Inr rs"
    by (auto simp: search_body_def bind_err_def split: sum.splits)
  then obtain ids0 :: "string list" where
    fr: "for_range (search_entry results) [0..<length ids0] = Inr rs" ..
  from for_range_nth [OF fr] have len: "length rs = length ids0"
    and ent: "\<forall>k<length ids0. search_entry results k = Inr (rs ! k)" by simp_all
  have *: "k < length ds \<and> sr_similarity_score (rs ! k) = 1 - ds ! k" if "k < length rs" for k
    using that len ent search_entry_score [OF _ ds] by auto
  show "\<forall>k<length rs. sr_similarity_score (rs ! k) = 1 - ds ! k" using * by blast
  show "length rs \<le> length ds"
  proof (cases rs)
    case Nil then show ?thesis by simp
  next
    case (Cons a list)
    then have "length rs - 1 < length rs" by simp
    from * [OF this] show ?thesis by linarith
  qed
qed

text \<open>
  C1, as the code has it. The results come in the order of the index's reply, and the
  score of each is 1 minus the distance the index reports for it, with no normalising and
  no clamping. So the scores are descending when the index reports ascending distances,
  and a score is within [0,1] when its distance is.
\<close>

theorem search_similar_scores:
  assumes "generate_embedding query = Inr qe"
    and "coll_query c [qe] n_results = Inr results"
    and "py_index (q_distances results) 0 = Inr ds"
  shows "map sr_similarity_score (search_similar generate_embedding coll_query c query n_results) =
           map (\<lambda>d. 1 - d)
             (take (length (search_similar generate_embedding coll_query c query n_results)) ds)
     \<and> (sorted ds \<longrightarrow>
          sorted (rev (map sr_similarity_score
            (search_similar generate_embedding coll_query c query n_results))))
     \<and> (k < length (search_similar generate_embedding coll_query c query n_results) \<longrightarrow>
          0 \<le> ds ! k \<and> ds ! k \<le> 1 \<longrightarrow>
          0 \<le> sr_similarity_score (search_similar generate_embedding coll_query c query n_results ! k) \<and>
          sr_similarity_score (search_similar generate_embedding coll_query c query n_results ! k) \<le> 1)"
proof (cases "search_body generate_embedding coll_query c query n_results")
  case (Inl e)
  then show ?thesis by (simp add: search_similar_def)
next
  case (Inr rs)
  then have rs: "search_similar generate_embedding coll_query c query n_results = rs"
    by (simp add: search_similar_def)
  from search_scores [OF Inr assms] have len: "length rs \<le> length ds"
    and sc: "\<forall>k<length rs. sr_similarity_score (rs ! k) = 1 - ds ! k" by simp_all
  have m: "map sr_similarity_score rs = map (\<lambda>d. 1 - d) (take (length rs) ds)"
    using len sc by (auto intro!: nth_equalityI)
  have "sorted (rev (map (\<lambda>d. 1 - d) (take (length rs) ds)))" if "sorted ds"
    using that by (intro descending_scores sorted_wrt_take)
  with m sc show ?thesis unfolding rs by auto
qed

theorem search_similar_scores_witness:
  "sorted [0.5, 2 :: real] \<and>
   map sr_similarity_score (search_similar demo_embedding demo_query demo_index ''late payment'' 2) =
     [0.5, -1] \<and>
   sorted (rev (map sr_similarity_score
     (search_similar demo_embedding demo_query demo_index ''late payment'' 2))) \<and>
   sr_similarity_score (search_similar demo_embedding demo_query demo_index ''late payment'' 2 ! 0) \<le> 1"
proof -
  have e: "demo_embedding ''late payment'' = Inr [1, 0]" by (simp add: demo_embedding_def)
  have q: "demo_query demo_index [[1, 0]] 2 =
      Inr \<lparr>q_ids = [[''chunk-3'', ''chunk-7'']],
          q_metadatas = [[[(''document_id'', MStr ''doc-1'')], [(''document_id'', MStr ''doc-2'')]]],
          q_documents = [[''Pay within 14 days.'', ''Notice of termination'']],
          q_distances = [[0.5, 2]]\<rparr>"
    by (simp add: demo_query_def)
  have d: "py_index (q_distances \<lparr>q_ids = [[''chunk-3'', ''chunk-7'']],
          q_metadatas = [[[(''document_id'', MStr ''doc-1'')], [(''document_id'', MStr ''doc-2'')]]],
          q_documents = [[''Pay within 14 days.'', ''Notice of termination'']],
          q_distances = [[0.5, 2]]\<rparr>) 0 = Inr [0.5, 2]"
    by (simp add: py_index_def)
  have len: "length (search_similar demo_embedding demo_query demo_index ''late payment'' 2) = 2"
    by (simp add: search_similar_def search_body_def search_entry_def bind_err_def
        demo_embedding_def demo_query_def py_index_def dict_item_def SearchResult_init_def
        upt_rec)
  have s: "sorted [0.5, 2 :: real]" by simp
  from search_similar_scores [where generate_embedding = demo_embedding
      and query = "''late payment''" and coll_query = demo_query and c = demo_index
      and n_results = 2 and k = 0, OF e q d] len s
  show ?thesis by simp
qed

text \<open>
  The claim as the specification states it fails on a reply with a distance above 1: the
  score of the second result is negative.
\<close>

theorem search_similar_counterexample:
  "map sr_similarity_score (search_similar demo_embedding demo_query demo_index ''late payment'' 2) =
     [0.5, -1] \<and>
   \<not> 0 \<le> sr_similarity_score
          (search_similar demo_embedding demo_query demo_index ''late payment'' 2 ! 1)"
  by (simp add: search_similar_def search_body_def search_entry_def bind_err_def
        demo_embedding_def demo_query_def py_index_def dict_item_def SearchResult_init_def
        upt_rec)

section \<open>Responding for an unknown document\<close>

text \<open>
  C7. When the index returns no chunk for the document id, the body of
  \<^verbatim>\<open>generate_response_for_document\<close> returns \<open>None\<close> by its early \<^verbatim>\<open>return\<close>, without an
  exception, and so does the function: no response is generated.
\<close>

theorem not_found_is_none:
  assumes "get_document_chunks coll_get c document_id = []"
  shows "response_body coll_get c env document_id response_type = Inr None \<and>
         generate_response_for_document coll_get c env document_id response_type = None"
  using assms by (simp add: generate_response_for_document_def response_body_def)

theorem not_found_is_none_witness:
  "get_document_chunks index_get demo_index ''doc-1'' = [] \<and>
   response_body index_get demo_index demo_env ''doc-1'' ''professional'' = Inr None \<and>
   generate_response_for_document index_get demo_index demo_env ''doc-1'' ''professional'' = None"
proof -
  have h: "get_document_chunks index_get demo_index ''doc-1'' = []"
    by (simp add: get_document_chunks_def chunks_body_def index_get_def demo_index_def
        references_def bind_err_def)
  from not_found_is_none [OF h] h show ?thesis by simp
qed

section \<open>Deleting a document\<close>

lemma get_after_delete:
  "get_document_chunks index_get (filter (\<lambda>r. \<not> references d r) c) d = []"
  by (simp add: get_document_chunks_def chunks_body_def index_get_def bind_err_def)

text \<open>
  C8. On the index of the specification, \<^verbatim>\<open>delete_document\<close> reports success and leaves
  the entries that do not reference the document; \<^verbatim>\<open>get_document_chunks\<close> on the same id
  is then empty; a second delete reports success and changes nothing; and deleting an id
  that no entry references reports success and leaves the index as it is.
\<close>

theorem delete_idempotent:
  "delete_document index_delete c d = (True, filter (\<lambda>r. \<not> references d r) c) \<and>
   get_document_chunks index_get (snd (delete_document index_delete c d)) d = [] \<and>
   delete_document index_delete (snd (delete_document index_delete c d)) d =
     (True, snd (delete_document index_delete c d)) \<and>
   (filter (references d) c = [] \<longrightarrow> delete_document index_delete c d = (True, c))"
  by (auto simp: delete_document_def index_delete_def get_after_delete filter_empty_conv
      intro: filter_True [symmetric])

theorem delete_idempotent_witness:
  "filter (references ''doc-1'') demo_index = [] \<and>
   delete_document index_delete demo_index ''doc-1'' = (True, demo_index) \<and>
   delete_document index_delete demo_index ''doc-2'' = (True, []) \<and>
   get_document_chunks index_get (snd (delete_document index_delete demo_index ''doc-2'')) ''doc-2'' = []"
proof -
  have h: "filter (references ''doc-1'') demo_index = []"
    by (simp add: demo_index_def references_def)
  have d2: "filter (\<lambda>r. \<not> references ''doc-2'' r) demo_index = []"
    by (simp add: demo_index_def references_def)
  have absent: "delete_document index_delete demo_index ''doc-1'' = (True, demo_index)"
    using delete_idempotent [of demo_index "''doc-1''"] h by blast
  have present: "delete_document index_delete demo_index ''doc-2'' = (True, [])"
    using delete_idempotent [of demo_index "''doc-2''"] unfolding d2 by blast
  have gone: "get_document_chunks index_get
      (snd (delete_document index_delete demo_index ''doc-2'')) ''doc-2'' = []"
    using delete_idempotent [of demo_index "''doc-2''"] by blast
  from h absent present gone show ?thesis by blast
qed

section \<open>Adding chunks writes the embeddings back\<close>

lemma add_chunks_loop_heap:
  "add_chunks_loop ge h as = (h', Inr rows) \<Longrightarrow>
     (\<forall>a. a \<notin> set as \<longrightarrow> h' a = h a) \<and>
     (\<forall>a\<in>set as. \<exists>chunk v. h a = Some chunk \<and> h' a = Some (chunk\<lparr>dc_embedding := Some v\<rparr>) \<and>
        (case dc_embedding chunk of Some e \<Rightarrow> v = e | None \<Rightarrow> ge (dc_content chunk) = Inr v))"
proof (induction as arbitrary: h h' rows)
  case Nil
  then show ?case by simp
next
  case (Cons a as)
  from Cons.prems obtain chunk where chunk: "h a = Some chunk"
    by (auto split: option.splits)
  show ?case
  proof (cases "dc_embedding chunk")
    case None
    with Cons.prems chunk obtain v rows' where v: "ge (dc_content chunk) = Inr v"
      and loop: "add_chunks_loop ge (h(a \<mapsto> chunk\<lparr>dc_embedding := Some v\<rparr>)) as = (h', Inr rows')"
      by (auto split: sum.splits prod.splits)
    note IH = Cons.IH [OF loop]
    have here: "h' a = Some (chunk\<lparr>dc_embedding := Some v\<rparr>)"
    proof (cases "a \<in> set as")
      case True
      with IH show ?thesis by fastforce
    next
      case False
      with IH show ?thesis by simp
    qed
    have others: "\<exists>chunk v. h b = Some chunk \<and> h' b = Some (chunk\<lparr>dc_embedding := Some v\<rparr>) \<and>
        (case dc_embedding chunk of Some e \<Rightarrow> v = e | None \<Rightarrow> ge (dc_content chunk) = Inr v)"
      if "b \<in> set as" "b \<noteq> a" for b
      using IH that by fastforce
    from IH have frame: "\<forall>b. b \<notin> set (a # as) \<longrightarrow> h' b = h b" by simp
    from here chunk None v have
      "\<exists>chunk v. h a = Some chunk \<and> h' a = Some (chunk\<lparr>dc_embedding := Some v\<rparr>) \<and>
        (case dc_embedding chunk of Some e \<Rightarrow> v = e | None \<Rightarrow> ge (dc_content chunk) = Inr v)"
      by simp
    with others frame show ?thesis by auto
  next
    case (Some v)
    with Cons.prems chunk obtain rows' where loop: "add_chunks_loop ge h as = (h', Inr rows')"
      by (auto split: sum.splits prod.splits)
    note IH = Cons.IH [OF loop]
    have same: "chunk\<lparr>dc_embedding := Some v\<rparr> = chunk" using Some by simp
    have "\<exists>chunk v. h a = Some chunk \<and> h' a = Some (chunk\<lparr>dc_embedding := Some v\<rparr>) \<and>
        (case dc_embedding chunk of Some e \<Rightarrow> v = e | None \<Rightarrow> ge (dc_content chunk) = Inr v)"
    proof (cases "a \<in> set as")
      case True
      with IH show ?thesis by blast
    next
      case False
      with IH have "h' a = Some chunk" using chunk by simp
      with chunk Some same show ?thesis by (intro exI [of _ chunk] exI [of _ v]) simp
    qed
    with IH show ?thesis by auto
  qed
qed

text \<open>
  C10. When \<^verbatim>\<open>add_chunks\<close> returns \<open>True\<close>, every chunk object of the caller's list has an
  embedding in the heap the call leaves behind: the one it had, or the one computed from
  its content, and nothing else of the object has changed. Objects outside the list are
  untouched.
\<close>

theorem add_chunks_writes_back:
  assumes "fst (add_chunks ge coll_add h c chunks)"
  shows "(\<forall>a\<in>set chunks. \<exists>chunk v.
            h a = Some chunk \<and>
            fst (snd (add_chunks ge coll_add h c chunks)) a = Some (chunk\<lparr>dc_embedding := Some v\<rparr>) \<and>
            (case dc_embedding chunk of Some e \<Rightarrow> v = e | None \<Rightarrow> ge (dc_content chunk) = Inr v)) \<and>
         (\<forall>a. a \<notin> set chunks \<longrightarrow> fst (snd (add_chunks ge coll_add h c chunks)) a = h a)"
proof -
  from assms obtain h' rows where loop: "add_chunks_loop ge h chunks = (h', Inr rows)"
    and h': "fst (snd (add_chunks ge coll_add h c chunks)) = h'"
    by (auto simp: add_chunks_def split: prod.splits sum.splits)
  from add_chunks_loop_heap [OF loop] show ?thesis unfolding h' by simp
qed

theorem add_chunks_writes_back_witness:
  "fst (add_chunks demo_embedding demo_add demo_heap [] [0, 1]) \<and>
   map_option dc_embedding (demo_heap 0) = Some None \<and>
   map_option dc_embedding (fst (snd (add_chunks demo_embedding demo_add demo_heap [] [0, 1])) 0) =
     Some (Some [1, 0])"
proof -
  have ok: "fst (add_chunks demo_embedding demo_add demo_heap [] [0, 1])"
    by (simp add: add_chunks_def demo_embedding_def demo_add_def demo_heap_def)
  have before: "map_option dc_embedding (demo_heap 0) = Some None"
    by (simp add: demo_heap_def)
  from add_chunks_writes_back [OF ok, THEN conjunct1, THEN bspec, of 0]
  obtain chunk v where chunk: "demo_heap 0 = Some chunk"
    and after: "fst (snd (add_chunks demo_embedding demo_add demo_heap [] [0, 1])) 0 =
      Some (chunk\<lparr>dc_embedding := Some v\<rparr>)"
    and v: "case dc_embedding chunk of Some e \<Rightarrow> v = e
            | None \<Rightarrow> demo_embedding (dc_content chunk) = Inr v"
    by auto
  from chunk have "dc_embedding chunk = None" by (auto simp: demo_heap_def)
  with v have "v = [1, 0]" by (simp add: demo_embedding_def)
  with after have "map_option dc_embedding
      (fst (snd (add_chunks demo_embedding demo_add demo_heap [] [0, 1])) 0) = Some (Some [1, 0])"
    by simp
  with ok before show ?thesis by blast
qed

end
